theory Spec2Isabelle
  imports Main "HOL-Library.Word" "HOL-Library.Stream" "HOL-Library.Sublist"
begin

unbundle bit_operations_syntax

section \<open>The RTCC driver \<^verbatim>\<open>rtc.c\<close>: data model\<close>

text \<open>
  The driver runs on a PIC32MZ (MIPS32, XC32 compiler): \<^verbatim>\<open>uint8_t\<close>, \<^verbatim>\<open>uint16_t\<close> and
  \<^verbatim>\<open>uint32_t\<close> are words of 8, 16 and 32 bits, and \<^verbatim>\<open>int\<close> has 32 bits. C promotes
  every \<^verbatim>\<open>uint8_t\<close> and \<^verbatim>\<open>uint16_t\<close> operand to \<^verbatim>\<open>int\<close> before arithmetic. All
  promoted operands of this file lie in \<open>0..65535\<close> and no intermediate result reaches
  \<open>2^31\<close>, so the 32-bit computation is written on \<open>32 word\<close> (\<open>ucast\<close> is the
  promotion, and also the truncation when the result is stored in a narrower variable).
\<close>

type_synonym u8 = "8 word"
type_synonym u16 = "16 word"
type_synonym u32 = "32 word"

text \<open>
  The RTCC peripheral: the two registers the driver reads. They are volatile and tick
  on their own, so the hardware is the stream of register images that successive reads
  meet: each volatile read looks at the head image and moves on to the next.
\<close>

record rtcc_regs =
  RTCDATE :: u32
  RTCTIME :: u32

type_synonym rtcc = "rtcc_regs stream"

definition read_RTCDATE :: "rtcc \<Rightarrow> u32 \<times> rtcc" where
  "read_RTCDATE hw = (RTCDATE (shd hw), stl hw)"

definition read_RTCTIME :: "rtcc \<Rightarrow> u32 \<times> rtcc" where
  "read_RTCTIME hw = (RTCTIME (shd hw), stl hw)"

text \<open>
  The globals of \<^verbatim>\<open>rtc.c\<close>: the buffer \<^verbatim>\<open>char current_datetime[20]\<close>, the external
  \<^verbatim>\<open>int multiTariff\<close>, and the two static window bounds. \<open>uart1\<close> is the text sent
  through \<^verbatim>\<open>__writeStringUart1\<close>, one entry per call, oldest first.
\<close>

record rtc_state =
  current_datetime :: "char list"
  multiTariff :: "32 word"
  peak_start_minutes :: u16
  peak_end_minutes :: u16
  uart1 :: "string list"

text \<open>
  Modelled from the spec: \<^verbatim>\<open>__writeStringUart1\<close> is called by \<^verbatim>\<open>rtc.c\<close> but defined in
  another file of the application. The spec's status sink is an append-only text output
  channel \<^verbatim>\<open>emit(line)\<close> that cannot fail.
\<close>

definition writeStringUart1 :: "string \<Rightarrow> rtc_state \<Rightarrow> rtc_state" where
  "writeStringUart1 str s = s\<lparr>uart1 := uart1 s @ [str]\<rparr>"

section \<open>BCD codec\<close>

text \<open>\<^verbatim>\<open>int_to_bcd\<close> (lines 32-34): \<^verbatim>\<open>return ((value / 10) << 4) | (value % 10);\<close>\<close>

definition int_to_bcd :: "u8 \<Rightarrow> u8" where
  "int_to_bcd v = ucast (push_bit 4 ((ucast v :: u32) div 10) OR ((ucast v :: u32) mod 10))"

text \<open>\<^verbatim>\<open>pack_time\<close> (lines 43-47).\<close>

definition pack_time :: "u8 \<Rightarrow> u8 \<Rightarrow> u8 \<Rightarrow> u32" where
  "pack_time hour minute sec =
     push_bit 24 (ucast (int_to_bcd hour)) OR
     push_bit 16 (ucast (int_to_bcd minute)) OR
     push_bit 8 (ucast (int_to_bcd sec))"

text \<open>\<^verbatim>\<open>pack_date\<close> (lines 56-60); \<^verbatim>\<open>year % 100\<close> is computed in \<^verbatim>\<open>int\<close> and
  truncated to the \<^verbatim>\<open>uint8_t\<close> parameter of \<^verbatim>\<open>int_to_bcd\<close>.\<close>

definition pack_date :: "u16 \<Rightarrow> u8 \<Rightarrow> u8 \<Rightarrow> u32" where
  "pack_date year month day =
     push_bit 24 (ucast (int_to_bcd (ucast ((ucast year :: u32) mod 100)))) OR
     push_bit 16 (ucast (int_to_bcd month)) OR
     push_bit 8 (ucast (int_to_bcd day))"

text \<open>The byte extractions of \<^verbatim>\<open>RTC_UpdateDateTime\<close> (lines 146-151) and
  \<^verbatim>\<open>checkPeakHours\<close> (lines 207-208), named after the local variables they
  initialise: \<^verbatim>\<open>uint8_t year_bcd = (date_reg >> 24) & 0xFF;\<close> and so on.\<close>

definition year_bcd :: "u32 \<Rightarrow> u8" where
  "year_bcd date_reg = ucast (drop_bit 24 date_reg AND 0xFF)"

definition month_bcd :: "u32 \<Rightarrow> u8" where
  "month_bcd date_reg = ucast (drop_bit 16 date_reg AND 0xFF)"

definition day_bcd :: "u32 \<Rightarrow> u8" where
  "day_bcd date_reg = ucast (drop_bit 8 date_reg AND 0xFF)"

definition hour_bcd :: "u32 \<Rightarrow> u8" where
  "hour_bcd time_reg = ucast (drop_bit 24 time_reg AND 0xFF)"

definition min_bcd :: "u32 \<Rightarrow> u8" where
  "min_bcd time_reg = ucast (drop_bit 16 time_reg AND 0xFF)"

definition sec_bcd :: "u32 \<Rightarrow> u8" where
  "sec_bcd time_reg = ucast (drop_bit 8 time_reg AND 0xFF)"

text \<open>The BCD-to-integer conversion that \<^verbatim>\<open>checkPeakHours\<close> writes inline
  (lines 211-212): \<^verbatim>\<open>uint8_t current_hour = ((hour_bcd >> 4) * 10) + (hour_bcd & 0x0F);\<close>\<close>

definition decode_bcd :: "u8 \<Rightarrow> u8" where
  "decode_bcd b = ucast (drop_bit 4 (ucast b :: u32) * 10 + ((ucast b :: u32) AND 0x0F))"

section \<open>Consistent register sampling\<close>

text \<open>
  The retry loop of \<^verbatim>\<open>RTC_UpdateDateTime\<close> (lines 138-143):
  \<^verbatim>\<open>do { date_reg = RTCDATE; time_reg = RTCTIME; date_check = RTCDATE; time_check = RTCTIME; }
  while ((date_reg != date_check) || (time_reg != time_check));\<close>
  The loop has no bound, so it is a partial function: \<open>None\<close> is the call that never
  leaves the loop. The result is the pair \<open>(date_reg, time_reg)\<close> and the hardware as
  the next read will find it.
\<close>

partial_function (option)
  RTC_UpdateDateTime_sample :: "rtcc \<Rightarrow> ((u32 \<times> u32) \<times> rtcc) option"
where
  "RTC_UpdateDateTime_sample hw =
     (let (date_reg, hw1) = read_RTCDATE hw;
          (time_reg, hw2) = read_RTCTIME hw1;
          (date_check, hw3) = read_RTCDATE hw2;
          (time_check, hw4) = read_RTCTIME hw3
      in if date_reg \<noteq> date_check \<or> time_reg \<noteq> time_check
         then RTC_UpdateDateTime_sample hw4
         else Some ((date_reg, time_reg), hw4))"

declare RTC_UpdateDateTime_sample.simps [code]

text \<open>
  The retry loop of \<^verbatim>\<open>checkPeakHours\<close> (lines 201-204):
  \<^verbatim>\<open>do { time_reg = RTCTIME; time_check = RTCTIME; } while (time_reg != time_check);\<close>
\<close>

partial_function (option)
  checkPeakHours_sample :: "rtcc \<Rightarrow> (u32 \<times> rtcc) option"
where
  "checkPeakHours_sample hw =
     (let (time_reg, hw1) = read_RTCTIME hw;
          (time_check, hw2) = read_RTCTIME hw1
      in if time_reg \<noteq> time_check
         then checkPeakHours_sample hw2
         else Some (time_reg, hw2))"

declare checkPeakHours_sample.simps [code]

section \<open>Formatting the date and time\<close>

text \<open>Storing an \<^verbatim>\<open>int\<close> expression in a \<^verbatim>\<open>char\<close> keeps its low 8 bits.\<close>

definition char_of_int :: "u32 \<Rightarrow> char" where
  "char_of_int x = char_of (unat x)"

text \<open>
  The twenty stores of \<^verbatim>\<open>RTC_UpdateDateTime\<close> into \<^verbatim>\<open>current_datetime\<close>
  (lines 154-173), for example
  \<^verbatim>\<open>current_datetime[2] = (year_bcd >> 4) + '0';\<close> and
  \<^verbatim>\<open>current_datetime[3] = (year_bcd & 0x0F) + '0';\<close>
\<close>

definition format_datetime :: "u32 \<Rightarrow> u32 \<Rightarrow> char list \<Rightarrow> char list" where
  "format_datetime date_reg time_reg buf =
     buf[0 := CHR ''2'',
         1 := CHR ''0'',
         2 := char_of_int (drop_bit 4 (ucast (year_bcd date_reg)) + of_char CHR ''0''),
         3 := char_of_int ((ucast (year_bcd date_reg) AND 0x0F) + of_char CHR ''0''),
         4 := CHR ''-'',
         5 := char_of_int (drop_bit 4 (ucast (month_bcd date_reg)) + of_char CHR ''0''),
         6 := char_of_int ((ucast (month_bcd date_reg) AND 0x0F) + of_char CHR ''0''),
         7 := CHR ''-'',
         8 := char_of_int (drop_bit 4 (ucast (day_bcd date_reg)) + of_char CHR ''0''),
         9 := char_of_int ((ucast (day_bcd date_reg) AND 0x0F) + of_char CHR ''0''),
         10 := CHR '' '',
         11 := char_of_int (drop_bit 4 (ucast (hour_bcd time_reg)) + of_char CHR ''0''),
         12 := char_of_int ((ucast (hour_bcd time_reg) AND 0x0F) + of_char CHR ''0''),
         13 := CHR '':'',
         14 := char_of_int (drop_bit 4 (ucast (min_bcd time_reg)) + of_char CHR ''0''),
         15 := char_of_int ((ucast (min_bcd time_reg) AND 0x0F) + of_char CHR ''0''),
         16 := CHR '':'',
         17 := char_of_int (drop_bit 4 (ucast (sec_bcd time_reg)) + of_char CHR ''0''),
         18 := char_of_int ((ucast (sec_bcd time_reg) AND 0x0F) + of_char CHR ''0''),
         19 := CHR 0x00]"

text \<open>\<^verbatim>\<open>RTC_UpdateDateTime\<close> (lines 133-174): sample, then format into the shared buffer.\<close>

definition RTC_UpdateDateTime :: "rtcc \<Rightarrow> rtc_state \<Rightarrow> (rtc_state \<times> rtcc) option" where
  "RTC_UpdateDateTime hw s =
     (case RTC_UpdateDateTime_sample hw of
        None \<Rightarrow> None
      | Some ((date_reg, time_reg), hw') \<Rightarrow>
          Some (s\<lparr>current_datetime :=
                    format_datetime date_reg time_reg (current_datetime s)\<rparr>, hw'))"

section \<open>Peak hours\<close>

text \<open>\<^verbatim>\<open>setpeakhours\<close> (lines 185-189): \<^verbatim>\<open>peak_start_minutes = (start_hour * 60) + start_min;\<close>
  computed in \<^verbatim>\<open>int\<close> and stored in a \<^verbatim>\<open>uint16_t\<close>.\<close>

definition setpeakhours :: "u8 \<Rightarrow> u8 \<Rightarrow> u8 \<Rightarrow> u8 \<Rightarrow> rtc_state \<Rightarrow> rtc_state" where
  "setpeakhours start_hour start_min end_hour end_min s =
     s\<lparr>peak_start_minutes := ucast ((ucast start_hour :: u32) * 60 + ucast start_min),
       peak_end_minutes := ucast ((ucast end_hour :: u32) * 60 + ucast end_min)\<rparr>"

text \<open>The local \<^verbatim>\<open>current_minutes\<close> of \<^verbatim>\<open>checkPeakHours\<close> (lines 207-215), as a
  function of the sampled register.\<close>

definition current_minutes :: "u32 \<Rightarrow> u16" where
  "current_minutes time_reg =
     (let current_hour = decode_bcd (hour_bcd time_reg);
          current_min = decode_bcd (min_bcd time_reg)
      in ucast ((ucast current_hour :: u32) * 60 + ucast current_min))"

text \<open>\<^verbatim>\<open>checkPeakHours\<close> (lines 196-226). The comparison promotes its \<^verbatim>\<open>uint16_t\<close>
  operands to \<^verbatim>\<open>int\<close>.\<close>

definition checkPeakHours :: "rtcc \<Rightarrow> rtc_state \<Rightarrow> (rtc_state \<times> rtcc) option" where
  "checkPeakHours hw s =
     (case checkPeakHours_sample hw of
        None \<Rightarrow> None
      | Some (time_reg, hw') \<Rightarrow>
          if (ucast (current_minutes time_reg) :: u32) \<ge> ucast (peak_start_minutes s) \<and>
             (ucast (current_minutes time_reg) :: u32) < ucast (peak_end_minutes s)
          then Some ((writeStringUart1 (''(PEAK-HOUR)\<newline>'') s)\<lparr>multiTariff := 1\<rparr>, hw')
          else Some ((writeStringUart1 (''(OFFPEAK-HOUR)\<newline>'') s)\<lparr>multiTariff := 0\<rparr>, hw'))"

section \<open>Vocabulary of the properties\<close>

text \<open>
  Attempt \<open>k\<close> of a retry loop starts after the reads of the attempts before it: two
  reads each in \<^verbatim>\<open>checkPeakHours\<close>, four each in \<^verbatim>\<open>RTC_UpdateDateTime\<close>. An
  attempt agrees when the loop condition is false for its reads; \<open>time_sampled\<close> and
  \<open>date_time_sampled\<close> are the values of \<^verbatim>\<open>time_reg\<close> and
  \<^verbatim>\<open>(date_reg, time_reg)\<close> read by attempt \<open>k\<close>, with the hardware after its reads.
\<close>

definition time_agree :: "rtcc \<Rightarrow> nat \<Rightarrow> bool" where
  "time_agree hw k \<longleftrightarrow>
     (let w = sdrop (2 * k) hw in RTCTIME (shd w) = RTCTIME (shd (stl w)))"

definition time_sampled :: "rtcc \<Rightarrow> nat \<Rightarrow> u32 \<times> rtcc" where
  "time_sampled hw k = (let w = sdrop (2 * k) hw in (RTCTIME (shd w), stl (stl w)))"

definition date_time_agree :: "rtcc \<Rightarrow> nat \<Rightarrow> bool" where
  "date_time_agree hw k \<longleftrightarrow>
     (let w = sdrop (4 * k) hw
      in RTCDATE (shd w) = RTCDATE (shd (stl (stl w))) \<and>
         RTCTIME (shd (stl w)) = RTCTIME (shd (stl (stl (stl w)))))"

definition date_time_sampled :: "rtcc \<Rightarrow> nat \<Rightarrow> (u32 \<times> u32) \<times> rtcc" where
  "date_time_sampled hw k =
     (let w = sdrop (4 * k) hw
      in ((RTCDATE (shd w), RTCTIME (shd (stl w))), stl (stl (stl (stl w)))))"

text \<open>
  The window test in the words of the spec: \<open>start \<le> minutes_now < end\<close>, on natural
  numbers.
\<close>

definition in_window :: "rtc_state \<Rightarrow> nat \<Rightarrow> bool" where
  "in_window s minutes_now \<longleftrightarrow>
     unat (peak_start_minutes s) \<le> minutes_now \<and> minutes_now < unat (peak_end_minutes s)"

text \<open>
  A byte holds valid BCD when both nibbles are decimal digits. The text of a decoded
  field is its value in two decimal digits, padded with a zero; \<open>date_time_text\<close> is
  the pattern \<^verbatim>\<open>YYYY-MM-DD HH:MM:SS\<close> of the spec, the century fixed to 20.
\<close>

definition valid_bcd :: "u8 \<Rightarrow> bool" where
  "valid_bcd b \<longleftrightarrow> unat b div 16 \<le> 9 \<and> unat b mod 16 \<le> 9"

definition digit_char :: "nat \<Rightarrow> char" where
  "digit_char d = ''0123456789'' ! d"

definition two_digits :: "nat \<Rightarrow> string" where
  "two_digits n = [digit_char (n div 10), digit_char (n mod 10)]"

definition date_time_text :: "u32 \<Rightarrow> u32 \<Rightarrow> string" where
  "date_time_text date_reg time_reg =
     ''20'' @ two_digits (unat (decode_bcd (year_bcd date_reg))) @ ''-'' @
     two_digits (unat (decode_bcd (month_bcd date_reg))) @ ''-'' @
     two_digits (unat (decode_bcd (day_bcd date_reg))) @ '' '' @
     two_digits (unat (decode_bcd (hour_bcd time_reg))) @ '':'' @
     two_digits (unat (decode_bcd (min_bcd time_reg))) @ '':'' @
     two_digits (unat (decode_bcd (sec_bcd time_reg)))"

section \<open>Example states and hardware traces\<close>

text \<open>
  The globals at power-on: the two window bounds have the initialiser 0 (lines 22-23),
  the buffer has none and C fills it with zeros. \<^verbatim>\<open>multiTariff\<close> belongs to the main
  application; 0 stands for it here.
\<close>

definition power_on :: rtc_state where
  "power_on = \<lparr>current_datetime = replicate 20 (CHR 0x00), multiTariff = 0,
               peak_start_minutes = 0, peak_end_minutes = 0, uart1 = []\<rparr>"

text \<open>A clock that holds still while it is read.\<close>

definition steady_clock :: "u32 \<Rightarrow> u32 \<Rightarrow> rtcc" where
  "steady_clock date_reg time_reg = sconst \<lparr>RTCDATE = date_reg, RTCTIME = time_reg\<rparr>"

text \<open>A clock that ticks from 2025-08-08 23:59:59 to 2025-08-09 00:00:00 after the
  first read, then holds still.\<close>

definition before_midnight :: rtcc_regs where
  "before_midnight = \<lparr>RTCDATE = 0x25080800, RTCTIME = 0x23595900\<rparr>"

definition after_midnight :: rtcc_regs where
  "after_midnight = \<lparr>RTCDATE = 0x25080900, RTCTIME = 0x00000000\<rparr>"

definition midnight_tick :: rtcc where
  "midnight_tick = before_midnight ## after_midnight ## sconst after_midnight"

text \<open>Clocks that tick between the reads of every attempt, without end.\<close>

definition restless_time :: rtcc where
  "restless_time = cycle [before_midnight, after_midnight]"

definition restless_date :: rtcc where
  "restless_date = cycle [before_midnight, before_midnight, after_midnight, after_midnight]"

section \<open>Helper lemmas on nibbles and bytes\<close>

lemma fifteen_mask: "(15 :: 'a::len word) = mask 4"
  by (simp add: mask_eq_exp_minus_1)

lemma nib_hi:
  "drop_bit 4 (ucast (ucast (push_bit 4 (take_bit 4 q) OR take_bit 4 r :: u32) :: u8) :: u32)
     = take_bit 4 q"
  by (rule bit_word_eqI) (auto simp: bit_simps)

lemma nib_lo:
  "(ucast (ucast (push_bit 4 (take_bit 4 q) OR take_bit 4 r :: u32) :: u8) :: u32) AND 15
     = take_bit 4 r"
  unfolding fifteen_mask by (rule bit_word_eqI) (auto simp: bit_simps)

lemma small_take_bit4: "(x :: u32) < 16 \<Longrightarrow> take_bit 4 x = x"
  using less_mask_eq [of x 4] by (simp add: take_bit_eq_mask)

lemma decode_nibbles:
  assumes "(q :: u32) < 16" "(r :: u32) < 16"
  shows "decode_bcd (ucast (push_bit 4 q OR r)) = ucast (q * 10 + r)"
proof -
  have "decode_bcd (ucast (push_bit 4 (take_bit 4 q) OR take_bit 4 r))
          = ucast (take_bit 4 q * 10 + take_bit 4 r)"
    unfolding decode_bcd_def nib_hi nib_lo ..
  then show ?thesis using assms by (simp add: small_take_bit4)
qed

lemma unat_ucast_8_32: "unat (ucast (v :: u8) :: u32) = unat v"
  by (simp add: unsigned_ucast_eq take_bit_nat_eq_self_iff)
     (rule order_less_trans [OF unsigned_less], simp)

lemma div10_small: "(x :: u32) \<le> 99 \<Longrightarrow> x div 10 < 16"
  by (simp add: word_less_nat_alt word_le_nat_alt unat_div)

lemma mod10_small: "(x :: u32) mod 10 < 16"
proof -
  have "unat x mod 10 < 10" by simp
  then show ?thesis by (simp add: word_less_nat_alt unat_mod)
qed

lemma ucast_le_99: "(v :: u8) \<le> 99 \<Longrightarrow> (ucast v :: u32) \<le> 99"
  by (simp add: word_le_nat_alt unat_ucast_8_32)

lemma ucast_8_32_8: "ucast (ucast (v :: u8) :: u32) = (v :: u8)"
  by (simp add: ucast_up_ucast_id is_up)

lemma decode_int_to_bcd:
  assumes "v \<le> 99"
  shows "decode_bcd (int_to_bcd v) = v"
proof -
  let ?x = "ucast v :: u32"
  have "decode_bcd (int_to_bcd v) = ucast (?x div 10 * 10 + ?x mod 10)"
    unfolding int_to_bcd_def
    using assms by (simp only: decode_nibbles div10_small mod10_small ucast_le_99)
  also have "?x div 10 * 10 + ?x mod 10 = ?x"
    by (rule div_mult_mod_eq)
  finally show ?thesis by (simp only: ucast_8_32_8)
qed

subsection \<open>Bytes of a packed register\<close>

lemma ff_mask: "(0xFF :: 'a::len word) = mask 8"
  by (simp add: mask_eq_exp_minus_1)

lemma byte3_of_packed:
  "ucast (drop_bit 24 (push_bit 24 (ucast a) OR push_bit 16 (ucast b) OR push_bit 8 (ucast c) :: u32) AND 0xFF) = (a :: u8)"
  for b c :: u8
  unfolding ff_mask by (rule bit_word_eqI) (auto simp: bit_simps dest: bit_imp_le_length)

lemma byte2_of_packed:
  "ucast (drop_bit 16 (push_bit 24 (ucast a) OR push_bit 16 (ucast b) OR push_bit 8 (ucast c) :: u32) AND 0xFF) = (b :: u8)"
  for a c :: u8
  unfolding ff_mask by (rule bit_word_eqI) (auto simp: bit_simps dest: bit_imp_le_length)

lemma byte1_of_packed:
  "ucast (drop_bit 8 (push_bit 24 (ucast a) OR push_bit 16 (ucast b) OR push_bit 8 (ucast c) :: u32) AND 0xFF) = (c :: u8)"
  for a b :: u8
  unfolding ff_mask by (rule bit_word_eqI) (auto simp: bit_simps dest: bit_imp_le_length)

lemma fields_of_pack_time:
  "hour_bcd (pack_time h m s) = int_to_bcd h"
  "min_bcd (pack_time h m s) = int_to_bcd m"
  "sec_bcd (pack_time h m s) = int_to_bcd s"
  unfolding hour_bcd_def min_bcd_def sec_bcd_def pack_time_def
  by (rule byte3_of_packed byte2_of_packed byte1_of_packed)+

lemma fields_of_pack_date:
  "year_bcd (pack_date y m d) = int_to_bcd (ucast ((ucast y :: u32) mod 100))"
  "month_bcd (pack_date y m d) = int_to_bcd m"
  "day_bcd (pack_date y m d) = int_to_bcd d"
  unfolding year_bcd_def month_bcd_def day_bcd_def pack_date_def
  by (rule byte3_of_packed byte2_of_packed byte1_of_packed)+

lemma unat_ucast_16_32: "unat (ucast (v :: u16) :: u32) = unat v"
  by (simp add: unsigned_ucast_eq take_bit_nat_eq_self_iff)
     (rule order_less_trans [OF unsigned_less], simp)

lemma unat_ucast_32_8: "unat (x :: u32) < 256 \<Longrightarrow> unat (ucast x :: u8) = unat x"
  by (simp add: unsigned_ucast_eq take_bit_nat_eq_self_iff)

lemma unat_year_mod: "unat (ucast ((ucast (y :: u16) :: u32) mod 100) :: u8) = unat y mod 100"
proof -
  have *: "unat ((ucast y :: u32) mod 100) = unat y mod 100"
    by (simp add: unat_mod unat_ucast_16_32)
  have "unat y mod 100 < 100" by simp
  then have "unat ((ucast y :: u32) mod 100) < 256" unfolding * by linarith
  then show ?thesis using * by (simp only: unat_ucast_32_8)
qed

lemma year_mod_le: "(ucast ((ucast (y :: u16) :: u32) mod 100) :: u8) \<le> 99"
proof -
  have "unat y mod 100 < 100" by simp
  then show ?thesis
    by (simp add: word_le_nat_alt unat_year_mod)
qed

subsection \<open>The arithmetic read as natural numbers: nothing overflows\<close>

lemma unat_ucast_32_16: "unat (x :: u32) < 65536 \<Longrightarrow> unat (ucast x :: u16) = unat x"
  by (simp add: unsigned_ucast_eq take_bit_nat_eq_self_iff)

lemma unat_u8_bound: "unat (b :: u8) < 256"
  using unsigned_less [of b, where 'a = nat] by simp

lemma unat_hi_nibble: "unat (drop_bit 4 (ucast (b :: u8) :: u32)) = unat b div 16"
  by (simp add: drop_bit_eq_div unat_div unat_ucast_8_32)

lemma unat_lo_nibble: "unat ((ucast (b :: u8) :: u32) AND 0x0F) = unat b mod 16"
  unfolding fifteen_mask
  by (simp add: take_bit_eq_mod unat_mod unat_ucast_8_32 flip: take_bit_eq_mask)

lemma unat_mul_add_small:
  assumes "unat (a :: u32) * k + unat (c :: u32) < 2 ^ 32" "k < 2 ^ 32"
  shows "unat (a * of_nat k + c) = unat a * k + unat c"
proof -
  have k: "unat (of_nat k :: u32) = k"
    using assms(2) by (simp add: unat_of_nat)
  have "unat a * k < 2 ^ 32" using assms(1) by linarith
  then have m: "unat (a * of_nat k) = unat a * k"
    using k unat_mult_lem [of a "of_nat k"] by simp
  show ?thesis
    using assms(1) m unat_add_lem [of "a * of_nat k" c] by simp
qed

lemma unat_decode_bcd: "unat (decode_bcd b) = unat b div 16 * 10 + unat b mod 16"
proof -
  let ?h = "drop_bit 4 (ucast b :: u32)" and ?l = "(ucast b :: u32) AND 0x0F"
  have hb: "unat b div 16 < 16" using unat_u8_bound [of b] by simp
  have lb: "unat b mod 16 < 16" by simp
  have "unat ?h * 10 + unat ?l < 2 ^ 32"
    using hb lb by (simp add: unat_hi_nibble unat_lo_nibble)
  then have "unat (?h * of_nat 10 + ?l) = unat ?h * 10 + unat ?l"
    by (rule unat_mul_add_small) simp
  then have e: "unat (?h * 10 + ?l) = unat b div 16 * 10 + unat b mod 16"
    by (simp add: unat_hi_nibble unat_lo_nibble)
  then have "unat (?h * 10 + ?l) < 256" using hb lb by linarith
  then show ?thesis unfolding decode_bcd_def using e by (simp only: unat_ucast_32_8)
qed

lemma unat_decode_bcd_bound: "unat (decode_bcd b) \<le> 165"
proof -
  have "unat b div 16 < 16" using unat_u8_bound [of b] by simp
  moreover have "unat b mod 16 < 16" by simp
  ultimately show ?thesis unfolding unat_decode_bcd by linarith
qed

lemma unat_minutes_of:
  "unat (ucast ((ucast (h :: u8) :: u32) * 60 + ucast (m :: u8)) :: u16) = unat h * 60 + unat m"
proof -
  let ?a = "ucast h :: u32" and ?c = "ucast m :: u32"
  have b: "unat h * 60 + unat m < 65536"
    using unat_u8_bound [of h] unat_u8_bound [of m] by linarith
  then have "unat ?a * 60 + unat ?c < 2 ^ 32"
    by (simp add: unat_ucast_8_32)
  then have "unat (?a * of_nat 60 + ?c) = unat ?a * 60 + unat ?c"
    by (rule unat_mul_add_small) simp
  then have e: "unat (?a * 60 + ?c) = unat h * 60 + unat m"
    by (simp add: unat_ucast_8_32)
  then have "unat (?a * 60 + ?c) < 65536" using b by linarith
  then show ?thesis using e by (simp only: unat_ucast_32_16)
qed

lemma unat_current_minutes:
  "unat (current_minutes time_reg) =
     unat (decode_bcd (hour_bcd time_reg)) * 60 + unat (decode_bcd (min_bcd time_reg))"
  by (simp add: current_minutes_def Let_def unat_minutes_of)

lemma unat_setpeakhours:
  "unat (peak_start_minutes (setpeakhours sh sm eh em s)) = unat sh * 60 + unat sm"
  "unat (peak_end_minutes (setpeakhours sh sm eh em s)) = unat eh * 60 + unat em"
  by (simp_all add: setpeakhours_def unat_minutes_of)

lemma promoted_le: "(ucast (a :: u16) :: u32) \<le> ucast (b :: u16) \<longleftrightarrow> unat a \<le> unat b"
  by (simp add: word_le_nat_alt unat_ucast_16_32)

lemma promoted_less: "(ucast (a :: u16) :: u32) < ucast (b :: u16) \<longleftrightarrow> unat a < unat b"
  by (simp add: word_less_nat_alt unat_ucast_16_32)

subsection \<open>The retry loops\<close>

lemma time_sample_unfold:
  "checkPeakHours_sample hw =
     (if RTCTIME (shd hw) \<noteq> RTCTIME (shd (stl hw))
      then checkPeakHours_sample (stl (stl hw))
      else Some (RTCTIME (shd hw), stl (stl hw)))"
  by (subst checkPeakHours_sample.simps) (simp add: read_RTCTIME_def)

lemma date_time_sample_unfold:
  "RTC_UpdateDateTime_sample hw =
     (if RTCDATE (shd hw) \<noteq> RTCDATE (shd (stl (stl hw))) \<or>
         RTCTIME (shd (stl hw)) \<noteq> RTCTIME (shd (stl (stl (stl hw))))
      then RTC_UpdateDateTime_sample (stl (stl (stl (stl hw))))
      else Some ((RTCDATE (shd hw), RTCTIME (shd (stl hw))), stl (stl (stl (stl hw)))))"
  by (subst RTC_UpdateDateTime_sample.simps) (simp add: read_RTCTIME_def read_RTCDATE_def)

lemma sdrop_2_Suc: "sdrop (2 * Suc k) hw = sdrop (2 * k) (stl (stl hw))"
proof -
  have e: "2 * Suc k = Suc (Suc (2 * k))" by simp
  show ?thesis unfolding e by (simp only: sdrop.simps)
qed

lemma sdrop_4_Suc: "sdrop (4 * Suc k) hw = sdrop (4 * k) (stl (stl (stl (stl hw))))"
proof -
  have e: "4 * Suc k = Suc (Suc (Suc (Suc (4 * k))))" by simp
  show ?thesis unfolding e by (simp only: sdrop.simps)
qed

lemma time_agree_0: "time_agree hw 0 \<longleftrightarrow> RTCTIME (shd hw) = RTCTIME (shd (stl hw))"
  by (simp add: time_agree_def)

lemma time_agree_Suc: "time_agree hw (Suc k) \<longleftrightarrow> time_agree (stl (stl hw)) k"
  unfolding time_agree_def sdrop_2_Suc ..

lemma time_sampled_0: "time_sampled hw 0 = (RTCTIME (shd hw), stl (stl hw))"
  by (simp add: time_sampled_def)

lemma time_sampled_Suc: "time_sampled hw (Suc k) = time_sampled (stl (stl hw)) k"
  unfolding time_sampled_def sdrop_2_Suc ..

lemma date_time_agree_0:
  "date_time_agree hw 0 \<longleftrightarrow>
     RTCDATE (shd hw) = RTCDATE (shd (stl (stl hw))) \<and>
     RTCTIME (shd (stl hw)) = RTCTIME (shd (stl (stl (stl hw))))"
  by (simp add: date_time_agree_def)

lemma date_time_agree_Suc:
  "date_time_agree hw (Suc k) \<longleftrightarrow> date_time_agree (stl (stl (stl (stl hw)))) k"
  unfolding date_time_agree_def sdrop_4_Suc ..

lemma date_time_sampled_0:
  "date_time_sampled hw 0 = ((RTCDATE (shd hw), RTCTIME (shd (stl hw))), stl (stl (stl (stl hw))))"
  by (simp add: date_time_sampled_def)

lemma date_time_sampled_Suc:
  "date_time_sampled hw (Suc k) = date_time_sampled (stl (stl (stl (stl hw)))) k"
  unfolding date_time_sampled_def sdrop_4_Suc ..

lemma time_sample_first_agree:
  "time_agree hw k \<Longrightarrow> (\<forall>j<k. \<not> time_agree hw j) \<Longrightarrow>
   checkPeakHours_sample hw = Some (time_sampled hw k)"
proof (induction k arbitrary: hw)
  case 0
  then show ?case
    by (subst time_sample_unfold) (simp add: time_agree_0 time_sampled_0)
next
  case (Suc k)
  from Suc.prems(2) have n0: "\<not> time_agree hw 0" by blast
  have a: "time_agree (stl (stl hw)) k"
    using Suc.prems(1) by (simp only: time_agree_Suc)
  have b: "\<forall>j<k. \<not> time_agree (stl (stl hw)) j"
  proof (intro allI impI)
    fix j assume "j < k"
    then have "\<not> time_agree hw (Suc j)" using Suc.prems(2) by simp
    then show "\<not> time_agree (stl (stl hw)) j" by (simp add: time_agree_Suc)
  qed
  have "checkPeakHours_sample hw = checkPeakHours_sample (stl (stl hw))"
    using n0 by (subst time_sample_unfold) (simp add: time_agree_0)
  also have "\<dots> = Some (time_sampled (stl (stl hw)) k)"
    by (rule Suc.IH [OF a b])
  finally show ?case by (simp only: time_sampled_Suc)
qed

lemma time_sample_Some:
  assumes "checkPeakHours_sample hw = Some r"
  shows "\<exists>k. time_agree hw k \<and> (\<forall>j<k. \<not> time_agree hw j) \<and> r = time_sampled hw k"
proof (rule checkPeakHours_sample.raw_induct [OF _ assms])
  fix sample :: "rtcc \<Rightarrow> (u32 \<times> rtcc) option" and hw r
  assume IH: "\<And>x y. sample x = Some y \<Longrightarrow>
     \<exists>k. time_agree x k \<and> (\<forall>j<k. \<not> time_agree x j) \<and> y = time_sampled x k"
  assume body: "(let (time_reg, hw1) = read_RTCTIME hw;
          (time_check, hw2) = read_RTCTIME hw1
      in if time_reg \<noteq> time_check then sample hw2 else Some (time_reg, hw2)) = Some r"
  show "\<exists>k. time_agree hw k \<and> (\<forall>j<k. \<not> time_agree hw j) \<and> r = time_sampled hw k"
  proof (cases "time_agree hw 0")
    case True
    with body have "r = time_sampled hw 0"
      by (auto simp: read_RTCTIME_def time_agree_0 time_sampled_0)
    with True have "time_agree hw 0 \<and> (\<forall>j<0. \<not> time_agree hw j) \<and> r = time_sampled hw 0"
      by simp
    then show ?thesis by blast
  next
    case False
    with body have "sample (stl (stl hw)) = Some r"
      by (auto simp: read_RTCTIME_def time_agree_0)
    from IH [OF this] obtain k where k: "time_agree (stl (stl hw)) k"
      "\<forall>j<k. \<not> time_agree (stl (stl hw)) j" "r = time_sampled (stl (stl hw)) k"
      by blast
    have "\<forall>j<Suc k. \<not> time_agree hw j"
    proof (intro allI impI)
      fix j assume "j < Suc k"
      then show "\<not> time_agree hw j"
        using False k(2) by (cases j) (simp_all add: time_agree_Suc)
    qed
    moreover have "time_agree hw (Suc k)" using k(1) by (simp only: time_agree_Suc)
    moreover have "r = time_sampled hw (Suc k)"
      using k(3) by (simp only: time_sampled_Suc)
    ultimately show ?thesis by blast
  qed
qed

lemma time_sample_never:
  "(\<forall>k. \<not> time_agree hw k) \<Longrightarrow> checkPeakHours_sample hw = None"
  using time_sample_Some [of hw] by (cases "checkPeakHours_sample hw") auto

lemma date_time_sample_first_agree:
  "date_time_agree hw k \<Longrightarrow> (\<forall>j<k. \<not> date_time_agree hw j) \<Longrightarrow>
   RTC_UpdateDateTime_sample hw = Some (date_time_sampled hw k)"
proof (induction k arbitrary: hw)
  case 0
  then show ?case
    by (subst date_time_sample_unfold) (simp add: date_time_agree_0 date_time_sampled_0)
next
  case (Suc k)
  let ?hw' = "stl (stl (stl (stl hw)))"
  from Suc.prems(2) have n0: "\<not> date_time_agree hw 0" by blast
  have a: "date_time_agree ?hw' k"
    using Suc.prems(1) by (simp only: date_time_agree_Suc)
  have b: "\<forall>j<k. \<not> date_time_agree ?hw' j"
  proof (intro allI impI)
    fix j assume "j < k"
    then have "\<not> date_time_agree hw (Suc j)" using Suc.prems(2) by simp
    then show "\<not> date_time_agree ?hw' j" by (simp add: date_time_agree_Suc)
  qed
  have "RTC_UpdateDateTime_sample hw = RTC_UpdateDateTime_sample ?hw'"
    using n0 by (subst date_time_sample_unfold) (auto simp add: date_time_agree_0)
  also have "\<dots> = Some (date_time_sampled ?hw' k)"
    by (rule Suc.IH [OF a b])
  finally show ?case by (simp only: date_time_sampled_Suc)
qed

lemma date_time_sample_Some:
  assumes "RTC_UpdateDateTime_sample hw = Some r"
  shows "\<exists>k. date_time_agree hw k \<and> (\<forall>j<k. \<not> date_time_agree hw j) \<and>
             r = date_time_sampled hw k"
proof (rule RTC_UpdateDateTime_sample.raw_induct [OF _ assms])
  fix sample :: "rtcc \<Rightarrow> ((u32 \<times> u32) \<times> rtcc) option" and hw :: rtcc and r
  let ?hw' = "stl (stl (stl (stl hw)))"
  assume IH: "\<And>x y. sample x = Some y \<Longrightarrow>
     \<exists>k. date_time_agree x k \<and> (\<forall>j<k. \<not> date_time_agree x j) \<and> y = date_time_sampled x k"
  assume body: "(let (date_reg, hw1) = read_RTCDATE hw;
          (time_reg, hw2) = read_RTCTIME hw1;
          (date_check, hw3) = read_RTCDATE hw2;
          (time_check, hw4) = read_RTCTIME hw3
      in if date_reg \<noteq> date_check \<or> time_reg \<noteq> time_check
         then sample hw4
         else Some ((date_reg, time_reg), hw4)) = Some r"
  show "\<exists>k. date_time_agree hw k \<and> (\<forall>j<k. \<not> date_time_agree hw j) \<and>
            r = date_time_sampled hw k"
  proof (cases "date_time_agree hw 0")
    case True
    with body have "r = date_time_sampled hw 0"
      by (auto simp: read_RTCTIME_def read_RTCDATE_def date_time_agree_0 date_time_sampled_0)
    with True have "date_time_agree hw 0 \<and> (\<forall>j<0. \<not> date_time_agree hw j) \<and>
        r = date_time_sampled hw 0"
      by simp
    then show ?thesis by blast
  next
    case False
    with body have "sample ?hw' = Some r"
      by (auto simp: read_RTCTIME_def read_RTCDATE_def date_time_agree_0)
    from IH [OF this] obtain k where k: "date_time_agree ?hw' k"
      "\<forall>j<k. \<not> date_time_agree ?hw' j" "r = date_time_sampled ?hw' k"
      by blast
    have "\<forall>j<Suc k. \<not> date_time_agree hw j"
    proof (intro allI impI)
      fix j assume "j < Suc k"
      then show "\<not> date_time_agree hw j"
        using False k(2) by (cases j) (simp_all add: date_time_agree_Suc)
    qed
    moreover have "date_time_agree hw (Suc k)" using k(1) by (simp only: date_time_agree_Suc)
    moreover have "r = date_time_sampled hw (Suc k)"
      using k(3) by (simp only: date_time_sampled_Suc)
    ultimately show ?thesis by blast
  qed
qed

lemma date_time_sample_never:
  "(\<forall>k. \<not> date_time_agree hw k) \<Longrightarrow> RTC_UpdateDateTime_sample hw = None"
  using date_time_sample_Some [of hw] by (cases "RTC_UpdateDateTime_sample hw") auto

subsection \<open>The example traces\<close>

lemma time_sample_steady:
  "checkPeakHours_sample (steady_clock d t) = Some (t, steady_clock d t)"
  unfolding steady_clock_def by (subst time_sample_unfold) simp

lemma date_time_sample_steady:
  "RTC_UpdateDateTime_sample (steady_clock d t) = Some ((d, t), steady_clock d t)"
  unfolding steady_clock_def by (subst date_time_sample_unfold) simp

lemma time_sample_midnight:
  "checkPeakHours_sample midnight_tick = Some (0, sconst after_midnight)"
  unfolding midnight_tick_def
  by (subst time_sample_unfold, simp add: before_midnight_def after_midnight_def,
      subst time_sample_unfold, simp add: after_midnight_def)

lemma date_time_sample_midnight:
  "RTC_UpdateDateTime_sample midnight_tick = Some ((0x25080900, 0), sconst after_midnight)"
  unfolding midnight_tick_def
  by (subst date_time_sample_unfold, simp add: before_midnight_def after_midnight_def,
      subst date_time_sample_unfold, simp add: after_midnight_def)

lemma sdrop_first_attempts:
  "sdrop (2 * 0) hw = hw" "sdrop (2 * 1) hw = stl (stl hw)"
  "sdrop (4 * 0) hw = hw" "sdrop (4 * 1) hw = stl (stl (stl (stl hw)))"
  by (simp_all add: eval_nat_numeral)

lemma midnight_tick_agree:
  "\<not> time_agree midnight_tick 0" "time_agree midnight_tick 1"
  "\<not> date_time_agree midnight_tick 0" "date_time_agree midnight_tick 1"
  "time_sampled midnight_tick 1 = (0, sconst after_midnight)"
  "date_time_sampled midnight_tick 1 = ((0x25080900, 0), sconst after_midnight)"
  unfolding time_agree_def date_time_agree_def time_sampled_def date_time_sampled_def
    sdrop_first_attempts
  by (simp_all add: midnight_tick_def before_midnight_def after_midnight_def)

lemma restless_time_never: "\<not> time_agree restless_time k"
proof -
  have "2 * k mod length [before_midnight, after_midnight] = 0"
  proof -
    have "length [before_midnight, after_midnight] = 2" by simp
    then show ?thesis by (simp only: mod_mult_self1_is_0)
  qed
  then have "sdrop (2 * k) restless_time = restless_time"
    unfolding restless_time_def by (intro sdrop_cycle_eq_mod_0) simp_all
  then show ?thesis
    by (simp add: time_agree_def restless_time_def before_midnight_def after_midnight_def)
qed

lemma restless_date_never: "\<not> date_time_agree restless_date k"
proof -
  have "4 * k mod length [before_midnight, before_midnight, after_midnight, after_midnight] = 0"
  proof -
    have "length [before_midnight, before_midnight, after_midnight, after_midnight] = 4"
      by simp
    then show ?thesis by (simp only: mod_mult_self1_is_0)
  qed
  then have "sdrop (4 * k) restless_date = restless_date"
    unfolding restless_date_def by (intro sdrop_cycle_eq_mod_0) simp_all
  then show ?thesis
    by (simp add: date_time_agree_def restless_date_def before_midnight_def after_midnight_def)
qed

subsection \<open>The classifier\<close>

lemma checkPeakHours_result:
  assumes "checkPeakHours_sample hw = Some (time_reg, hw')"
  shows "checkPeakHours hw s =
     Some (if in_window s (unat (current_minutes time_reg))
           then s\<lparr>uart1 := uart1 s @ [''(PEAK-HOUR)\<newline>''], multiTariff := 1\<rparr>
           else s\<lparr>uart1 := uart1 s @ [''(OFFPEAK-HOUR)\<newline>''], multiTariff := 0\<rparr>, hw')"
  using assms
  by (simp add: checkPeakHours_def in_window_def promoted_le promoted_less
      writeStringUart1_def)

lemma checkPeakHours_None:
  "checkPeakHours hw s = None \<longleftrightarrow> checkPeakHours_sample hw = None"
  by (auto simp: checkPeakHours_def split: option.splits)

lemma minutes_of_encoded:
  assumes "hour \<le> 23" "minute \<le> 59"
    and "hour_bcd time_reg = int_to_bcd hour" "min_bcd time_reg = int_to_bcd minute"
  shows "unat (current_minutes time_reg) = unat hour * 60 + unat minute"
proof -
  from assms(1,2) have "hour \<le> 99" "minute \<le> 99"
    by (simp_all add: word_le_nat_alt)
  then show ?thesis
    by (simp add: unat_current_minutes assms(3,4) decode_int_to_bcd)
qed

lemma sublist_peak: "sublist ''PEAK-HOUR'' ''(PEAK-HOUR)\<newline>''"
proof -
  have e: "''(PEAK-HOUR)\<newline>'' = ''('' @ ''PEAK-HOUR'' @ '')\<newline>''"
    by simp
  show ?thesis by (subst e) (rule sublist_appendI)
qed

lemma sublist_offpeak: "sublist ''OFFPEAK-HOUR'' ''(OFFPEAK-HOUR)\<newline>''"
proof -
  have e: "''(OFFPEAK-HOUR)\<newline>'' = ''('' @ ''OFFPEAK-HOUR'' @ '')\<newline>''"
    by simp
  show ?thesis by (subst e) (rule sublist_appendI)
qed

subsection \<open>The formatter\<close>

lemma char_of_digit: "d \<le> 9 \<Longrightarrow> char_of (d + 48 :: nat) = digit_char d"
proof -
  assume "d \<le> 9"
  then have "d \<in> {0, 1, 2, 3, 4, 5, 6, 7, 8, 9}" by auto
  then show ?thesis
    by (auto simp: digit_char_def char_of_def bit_Suc_0_iff)
qed

lemma hi_digit_char:
  assumes "valid_bcd b"
  shows "char_of_int (drop_bit 4 (ucast b) + of_char CHR ''0'') = digit_char (unat (decode_bcd b) div 10)"
proof -
  let ?h = "drop_bit 4 (ucast b :: u32)"
  have h: "unat ?h = unat b div 16" by (rule unat_hi_nibble)
  have hb: "unat b div 16 \<le> 9" "unat b mod 16 \<le> 9" using assms by (simp_all add: valid_bcd_def)
  have "unat ?h + unat (48 :: u32) < 2 ^ 32" using hb unfolding h by simp
  then have "unat (?h + 48) = unat b div 16 + 48"
    using unat_add_lem [of ?h 48] h by simp
  moreover have "unat (decode_bcd b) div 10 = unat b div 16"
    unfolding unat_decode_bcd using hb by simp
  ultimately show ?thesis
    using hb by (simp add: char_of_int_def char_of_digit)
qed

lemma lo_digit_char:
  assumes "valid_bcd b"
  shows "char_of_int ((ucast b AND 0x0F) + of_char CHR ''0'') = digit_char (unat (decode_bcd b) mod 10)"
proof -
  let ?l = "(ucast b :: u32) AND 0x0F"
  have l: "unat ?l = unat b mod 16" by (rule unat_lo_nibble)
  have hb: "unat b div 16 \<le> 9" "unat b mod 16 \<le> 9" using assms by (simp_all add: valid_bcd_def)
  have "unat ?l + unat (48 :: u32) < 2 ^ 32" using hb unfolding l by simp
  then have "unat (?l + 48) = unat b mod 16 + 48"
    using unat_add_lem [of ?l 48] l by simp
  moreover have "unat (decode_bcd b) mod 10 = unat b mod 16"
    unfolding unat_decode_bcd using hb by simp
  ultimately show ?thesis
    using hb by (simp add: char_of_int_def char_of_digit)
qed

lemma two_digits_bcd:
  "valid_bcd b \<Longrightarrow>
   two_digits (unat (decode_bcd b)) =
     [char_of_int (drop_bit 4 (ucast b) + of_char CHR ''0''),
      char_of_int ((ucast b AND 0x0F) + of_char CHR ''0'')]"
  by (simp only: two_digits_def hi_digit_char lo_digit_char)

lemma update_all_20:
  assumes "length buf = 20"
  shows "buf[0 := c0, 1 := c1, 2 := c2, 3 := c3, 4 := c4, 5 := c5, 6 := c6, 7 := c7, 8 := c8,
             9 := c9, 10 := c10, 11 := c11, 12 := c12, 13 := c13, 14 := c14, 15 := c15,
             16 := c16, 17 := c17, 18 := c18, 19 := c19]
         = [c0, c1, c2, c3, c4, c5, c6, c7, c8, c9, c10, c11, c12, c13, c14, c15, c16, c17,
            c18, c19]"
proof -
  from assms obtain b0 b1 b2 b3 b4 b5 b6 b7 b8 b9 b10 b11 b12 b13 b14 b15 b16 b17 b18 b19
    where "buf = [b0, b1, b2, b3, b4, b5, b6, b7, b8, b9, b10, b11, b12, b13, b14, b15, b16,
                  b17, b18, b19]"
    by (auto simp: eval_nat_numeral length_Suc_conv)
  then show ?thesis by (simp add: eval_nat_numeral)
qed

lemma format_datetime_text:
  assumes "length buf = 20"
    and "valid_bcd (year_bcd date_reg)" "valid_bcd (month_bcd date_reg)"
    and "valid_bcd (day_bcd date_reg)" "valid_bcd (hour_bcd time_reg)"
    and "valid_bcd (min_bcd time_reg)" "valid_bcd (sec_bcd time_reg)"
  shows "format_datetime date_reg time_reg buf = date_time_text date_reg time_reg @ [CHR 0x00]"
  unfolding format_datetime_def update_all_20 [OF assms(1)] date_time_text_def
  by (simp add: two_digits_bcd assms(2-7))

lemma length_date_time_text: "length (date_time_text date_reg time_reg) = 19"
  by (simp add: date_time_text_def two_digits_def)

lemma RTC_UpdateDateTime_result:
  assumes "RTC_UpdateDateTime_sample hw = Some ((date_reg, time_reg), hw')"
  shows "RTC_UpdateDateTime hw s =
     Some (s\<lparr>current_datetime := format_datetime date_reg time_reg (current_datetime s)\<rparr>, hw')"
  using assms by (simp add: RTC_UpdateDateTime_def)

lemma packed_example:
  "pack_date 2025 8 8 = 0x25080800" "pack_time 14 30 5 = 0x14300500"
  by (simp_all add: pack_date_def pack_time_def int_to_bcd_def)

lemma example_valid:
  "valid_bcd (year_bcd 0x25080800)" "valid_bcd (month_bcd 0x25080800)"
  "valid_bcd (day_bcd 0x25080800)" "valid_bcd (hour_bcd 0x14300500)"
  "valid_bcd (min_bcd 0x14300500)" "valid_bcd (sec_bcd 0x14300500)"
  by (simp_all add: valid_bcd_def year_bcd_def month_bcd_def day_bcd_def hour_bcd_def
      min_bcd_def sec_bcd_def)

lemma example_text: "date_time_text 0x25080800 0x14300500 = ''2025-08-08 14:30:05''"
  by (simp add: date_time_text_def two_digits_def digit_char_def unat_decode_bcd
      year_bcd_def month_bcd_def day_bcd_def hour_bcd_def min_bcd_def sec_bcd_def)

subsection \<open>Example times\<close>

lemma minutes_examples:
  "unat (current_minutes (pack_time 9 15 0)) = 555"
  "unat (current_minutes (pack_time 7 59 0)) = 479"
  "unat (current_minutes (pack_time 22 0 0)) = 1320"
  "unat (current_minutes (pack_time 12 0 0)) = 720"
  by (simp_all add: unat_current_minutes fields_of_pack_time decode_int_to_bcd)

subsection \<open>The classifier on the first agreeing attempt\<close>

lemma first_agree_unique:
  assumes "time_agree hw k" "\<forall>j<k. \<not> time_agree hw j"
    and "time_agree hw m" "\<forall>j<m. \<not> time_agree hw j"
  shows "k = m"
proof (rule ccontr)
  assume "k \<noteq> m"
  then consider "k < m" | "m < k" by linarith
  then show False using assms by cases auto
qed

lemma checkPeakHours_first_agree:
  assumes "time_agree hw k" "\<forall>j<k. \<not> time_agree hw j"
  shows "checkPeakHours hw s =
     Some (if in_window s (unat (current_minutes (fst (time_sampled hw k))))
           then s\<lparr>uart1 := uart1 s @ [''(PEAK-HOUR)\<newline>''], multiTariff := 1\<rparr>
           else s\<lparr>uart1 := uart1 s @ [''(OFFPEAK-HOUR)\<newline>''], multiTariff := 0\<rparr>,
           snd (time_sampled hw k))"
proof -
  have "checkPeakHours_sample hw = Some (fst (time_sampled hw k), snd (time_sampled hw k))"
    using time_sample_first_agree [OF assms] by simp
  then show ?thesis by (rule checkPeakHours_result)
qed

lemma steady_clock_agree:
  "time_agree (steady_clock d t) 0"
  "time_sampled (steady_clock d t) 0 = (t, steady_clock d t)"
  by (simp_all add: time_agree_def time_sampled_def steady_clock_def)

lemma midnight_tick_first:
  "time_agree midnight_tick (Suc 0)"
  "time_sampled midnight_tick (Suc 0) = (0, sconst after_midnight)"
  using midnight_tick_agree(2,5) by simp_all

lemma midnight_tick_first_unique:
  assumes "time_agree midnight_tick k" "\<forall>j<k. \<not> time_agree midnight_tick j"
  shows "k = Suc 0"
proof (rule first_agree_unique [OF assms midnight_tick_first(1)])
  show "\<forall>j<Suc 0. \<not> time_agree midnight_tick j"
    using midnight_tick_agree(1) by simp
qed

lemma steady_clock_first_unique:
  assumes "time_agree (steady_clock d t) k" "\<forall>j<k. \<not> time_agree (steady_clock d t) j"
  shows "k = 0"
  by (rule first_agree_unique [OF assms steady_clock_agree(1)]) simp

lemma minutes_of_midnight: "unat (current_minutes 0) = 0"
  by (simp add: unat_current_minutes unat_decode_bcd hour_bcd_def min_bcd_def)

section \<open>BCD round trip\<close>

text \<open>
  Claim C4. For every value \<open>v\<close> in \<open>[0, 99]\<close>, decoding the BCD byte that
  \<^verbatim>\<open>int_to_bcd\<close> produces, \<open>((v / 10) << 4) | (v % 10)\<close>, with the driver's decoding
  expression \<open>(byte >> 4) * 10 + (byte & 0xF)\<close> gives \<open>v\<close> back.
\<close>

theorem bcd_roundtrip: "v \<le> 99 \<Longrightarrow> decode_bcd (int_to_bcd v) = v"
  by (rule decode_int_to_bcd)

theorem bcd_roundtrip_witness:
  "(59 :: u8) \<le> 99 \<and> int_to_bcd 59 = 0x59 \<and> decode_bcd (int_to_bcd 59) = 59"
  using bcd_roundtrip [of 59] by (simp add: int_to_bcd_def)

section \<open>Packing and unpacking\<close>

text \<open>
  Claim C7. For every hour in \<open>[0, 23]\<close>, minute in \<open>[0, 59]\<close> and second in
  \<open>[0, 59]\<close>, taking bytes 3, 2 and 1 of the word that \<^verbatim>\<open>pack_time\<close> builds and
  decoding each from BCD gives (hour, minute, second) back.
\<close>

theorem time_roundtrip:
  "hour \<le> 23 \<Longrightarrow> minute \<le> 59 \<Longrightarrow> second \<le> 59 \<Longrightarrow>
   (decode_bcd (hour_bcd (pack_time hour minute second)),
    decode_bcd (min_bcd (pack_time hour minute second)),
    decode_bcd (sec_bcd (pack_time hour minute second))) = (hour, minute, second)"
proof -
  assume "hour \<le> 23" "minute \<le> 59" "second \<le> 59"
  then have "hour \<le> 99" "minute \<le> 99" "second \<le> 99"
    by (simp_all add: word_le_nat_alt)
  then show ?thesis
    by (simp add: fields_of_pack_time decode_int_to_bcd)
qed

theorem time_roundtrip_witness:
  "(23 :: u8) \<le> 23 \<and> (59 :: u8) \<le> 59 \<and>
   pack_time 23 59 58 = 0x23595800 \<and>
   (decode_bcd (hour_bcd (pack_time 23 59 58)),
    decode_bcd (min_bcd (pack_time 23 59 58)),
    decode_bcd (sec_bcd (pack_time 23 59 58))) = (23, 59, 58)"
  using time_roundtrip [of 23 59 58] by (simp add: pack_time_def int_to_bcd_def)

text \<open>
  Claim C8. For every year, month in \<open>[1, 12]\<close> and day in \<open>[1, 31]\<close>, taking bytes
  3, 2 and 1 of the word that \<^verbatim>\<open>pack_date\<close> builds and decoding each from BCD gives
  (year mod 100, month, day): the century is lost, and year 2105 comes back as 5.
\<close>

theorem date_roundtrip:
  "1 \<le> month \<Longrightarrow> month \<le> 12 \<Longrightarrow> 1 \<le> day \<Longrightarrow> day \<le> 31 \<Longrightarrow>
   unat (decode_bcd (year_bcd (pack_date year month day))) = unat year mod 100 \<and>
   decode_bcd (month_bcd (pack_date year month day)) = month \<and>
   decode_bcd (day_bcd (pack_date year month day)) = day"
proof -
  assume "1 \<le> month" "month \<le> 12" "1 \<le> day" "day \<le> 31"
  then have "month \<le> 99" "day \<le> 99"
    by (simp_all add: word_le_nat_alt)
  then show ?thesis
    by (simp add: fields_of_pack_date decode_int_to_bcd year_mod_le unat_year_mod)
qed

theorem date_roundtrip_witness:
  "(1 :: u8) \<le> 12 \<and> (12 :: u8) \<le> 12 \<and> (1 :: u8) \<le> 31 \<and> (31 :: u8) \<le> 31 \<and>
   pack_date 2105 12 31 = 0x05123100 \<and>
   unat (decode_bcd (year_bcd (pack_date 2105 12 31))) = 5 \<and>
   decode_bcd (month_bcd (pack_date 2105 12 31)) = 12 \<and>
   decode_bcd (day_bcd (pack_date 2105 12 31)) = 31"
  using date_roundtrip [of 12 31 2105] by (simp add: pack_date_def int_to_bcd_def)

section \<open>The sampler\<close>

text \<open>
  Claim C2. Whatever values the registers show, a sampling loop returns only values
  that two consecutive reads of the same register gave: the result of
  \<^verbatim>\<open>checkPeakHours\<close>'s loop is the \<^verbatim>\<open>time_reg\<close> of an attempt whose two reads of
  \<^verbatim>\<open>RTCTIME\<close> agree, and the result of \<^verbatim>\<open>RTC_UpdateDateTime\<close>'s loop is the
  \<^verbatim>\<open>(date_reg, time_reg)\<close> of an attempt whose two reads of \<^verbatim>\<open>RTCDATE\<close> agree and
  whose two reads of \<^verbatim>\<open>RTCTIME\<close> agree. In particular, when the reads of the first
  attempt disagree and those of the second agree, the loop retries once and returns
  the values of the second attempt.
\<close>

theorem sampler_consistent:
  "(checkPeakHours_sample hw = Some tr \<longrightarrow>
      (\<exists>k. time_agree hw k \<and> tr = time_sampled hw k)) \<and>
   (RTC_UpdateDateTime_sample hw = Some dtr \<longrightarrow>
      (\<exists>k. date_time_agree hw k \<and> dtr = date_time_sampled hw k)) \<and>
   (RTCTIME ra \<noteq> RTCTIME rb \<and> RTCTIME sa = RTCTIME sb \<longrightarrow>
      checkPeakHours_sample (ra ## rb ## sa ## sb ## rest) = Some (RTCTIME sa, rest)) \<and>
   ((RTCDATE ra \<noteq> RTCDATE rc \<or> RTCTIME rb \<noteq> RTCTIME rd) \<and>
    RTCDATE sa = RTCDATE sc \<and> RTCTIME sb = RTCTIME sd \<longrightarrow>
      RTC_UpdateDateTime_sample (ra ## rb ## rc ## rd ## sa ## sb ## sc ## sd ## rest)
        = Some ((RTCDATE sa, RTCTIME sb), rest))"
proof (intro conjI impI)
  assume "checkPeakHours_sample hw = Some tr"
  from time_sample_Some [OF this] show "\<exists>k. time_agree hw k \<and> tr = time_sampled hw k"
    by blast
next
  assume "RTC_UpdateDateTime_sample hw = Some dtr"
  from date_time_sample_Some [OF this]
  show "\<exists>k. date_time_agree hw k \<and> dtr = date_time_sampled hw k"
    by blast
next
  assume "RTCTIME ra \<noteq> RTCTIME rb \<and> RTCTIME sa = RTCTIME sb"
  then show "checkPeakHours_sample (ra ## rb ## sa ## sb ## rest) = Some (RTCTIME sa, rest)"
    by (subst time_sample_unfold, simp, subst time_sample_unfold, simp)
next
  assume "(RTCDATE ra \<noteq> RTCDATE rc \<or> RTCTIME rb \<noteq> RTCTIME rd) \<and>
    RTCDATE sa = RTCDATE sc \<and> RTCTIME sb = RTCTIME sd"
  then show "RTC_UpdateDateTime_sample (ra ## rb ## rc ## rd ## sa ## sb ## sc ## sd ## rest)
        = Some ((RTCDATE sa, RTCTIME sb), rest)"
    by (subst date_time_sample_unfold, simp, subst date_time_sample_unfold, simp)
qed

theorem sampler_consistent_witness:
  "checkPeakHours_sample midnight_tick = Some (0, sconst after_midnight) \<and>
   RTC_UpdateDateTime_sample midnight_tick = Some ((0x25080900, 0), sconst after_midnight) \<and>
   (\<exists>k. time_agree midnight_tick k \<and> (0, sconst after_midnight) = time_sampled midnight_tick k) \<and>
   (\<exists>k. date_time_agree midnight_tick k \<and>
        ((0x25080900, 0), sconst after_midnight) = date_time_sampled midnight_tick k) \<and>
   RTCTIME before_midnight \<noteq> RTCTIME after_midnight \<and>
   RTCDATE before_midnight \<noteq> RTCDATE after_midnight \<and>
   checkPeakHours_sample
     (before_midnight ## after_midnight ## after_midnight ## after_midnight ##
      sconst after_midnight)
     = Some (0, sconst after_midnight) \<and>
   RTC_UpdateDateTime_sample
     (before_midnight ## after_midnight ## after_midnight ## after_midnight ##
      after_midnight ## after_midnight ## after_midnight ## after_midnight ##
      sconst after_midnight)
     = Some ((0x25080900, 0), sconst after_midnight)"
proof -
  have ne: "RTCTIME before_midnight \<noteq> RTCTIME after_midnight"
    "RTCDATE before_midnight \<noteq> RTCDATE after_midnight"
    by (simp_all add: before_midnight_def after_midnight_def)
  note inst = sampler_consistent [where hw = midnight_tick
      and tr = "(0, sconst after_midnight)" and dtr = "((0x25080900, 0), sconst after_midnight)"
      and ra = before_midnight and rb = after_midnight and rc = after_midnight
      and rd = after_midnight and sa = after_midnight and sb = after_midnight
      and sc = after_midnight and sd = after_midnight and rest = "sconst after_midnight"]
  show ?thesis
    using inst ne time_sample_midnight date_time_sample_midnight
    by (simp add: after_midnight_def)
qed

text \<open>
  Claim C9. The retry loops have no bound on the number of attempts: on a clock whose
  reads never agree they never return. When some attempt agrees, that is, after
  finitely many attempts, the loop returns, and it returns the values of the first
  attempt that agrees.
\<close>

theorem sampler_terminates:
  "((\<exists>n. time_agree hw n) \<longrightarrow>
      (\<exists>k. time_agree hw k \<and> (\<forall>j<k. \<not> time_agree hw j) \<and>
           checkPeakHours_sample hw = Some (time_sampled hw k))) \<and>
   ((\<exists>n. date_time_agree hw n) \<longrightarrow>
      (\<exists>k. date_time_agree hw k \<and> (\<forall>j<k. \<not> date_time_agree hw j) \<and>
           RTC_UpdateDateTime_sample hw = Some (date_time_sampled hw k))) \<and>
   ((\<forall>n. \<not> time_agree hw n) \<longrightarrow> checkPeakHours_sample hw = None) \<and>
   ((\<forall>n. \<not> date_time_agree hw n) \<longrightarrow> RTC_UpdateDateTime_sample hw = None)"
proof (intro conjI impI)
  assume "\<exists>n. time_agree hw n"
  then obtain k where "time_agree hw k" "\<forall>j<k. \<not> time_agree hw j"
    by (auto simp: exists_least_iff [of "time_agree hw"])
  then show "\<exists>k. time_agree hw k \<and> (\<forall>j<k. \<not> time_agree hw j) \<and>
           checkPeakHours_sample hw = Some (time_sampled hw k)"
    using time_sample_first_agree [of hw k] by blast
next
  assume "\<exists>n. date_time_agree hw n"
  then obtain k where "date_time_agree hw k" "\<forall>j<k. \<not> date_time_agree hw j"
    by (auto simp: exists_least_iff [of "date_time_agree hw"])
  then show "\<exists>k. date_time_agree hw k \<and> (\<forall>j<k. \<not> date_time_agree hw j) \<and>
           RTC_UpdateDateTime_sample hw = Some (date_time_sampled hw k)"
    using date_time_sample_first_agree [of hw k] by blast
next
  assume "\<forall>n. \<not> time_agree hw n"
  then show "checkPeakHours_sample hw = None" by (rule time_sample_never)
next
  assume "\<forall>n. \<not> date_time_agree hw n"
  then show "RTC_UpdateDateTime_sample hw = None" by (rule date_time_sample_never)
qed

theorem sampler_terminates_witness:
  "(\<exists>n. time_agree midnight_tick n) \<and> (\<exists>n. date_time_agree midnight_tick n) \<and>
   (\<exists>k. time_agree midnight_tick k \<and> (\<forall>j<k. \<not> time_agree midnight_tick j) \<and>
        checkPeakHours_sample midnight_tick = Some (time_sampled midnight_tick k)) \<and>
   (\<exists>k. date_time_agree midnight_tick k \<and> (\<forall>j<k. \<not> date_time_agree midnight_tick j) \<and>
        RTC_UpdateDateTime_sample midnight_tick = Some (date_time_sampled midnight_tick k)) \<and>
   checkPeakHours_sample midnight_tick = Some (0, sconst after_midnight) \<and>
   RTC_UpdateDateTime_sample midnight_tick = Some ((0x25080900, 0), sconst after_midnight) \<and>
   (\<forall>n. \<not> time_agree restless_time n) \<and> checkPeakHours_sample restless_time = None \<and>
   (\<forall>n. \<not> date_time_agree restless_date n) \<and> RTC_UpdateDateTime_sample restless_date = None"
proof -
  have t: "\<exists>n. time_agree midnight_tick n" and d: "\<exists>n. date_time_agree midnight_tick n"
    using midnight_tick_agree(2,4) by blast+
  show ?thesis
    using t d sampler_terminates [of midnight_tick] sampler_terminates [of restless_time]
      sampler_terminates [of restless_date] restless_time_never restless_date_never
      time_sample_midnight date_time_sample_midnight
    by simp
qed

section \<open>The formatter\<close>

text \<open>
  Claim C3. For every sampled pair of registers whose date and time bytes hold valid
  BCD digits, \<^verbatim>\<open>RTC_UpdateDateTime\<close> leaves in the 20-byte buffer exactly the 19
  characters \<^verbatim>\<open>YYYY-MM-DD HH:MM:SS\<close>, every field two digits wide and padded with
  zero, the century fixed to 20, and then a NUL. On the registers that encode
  2025-08-08 14:30:05 the text is \<^verbatim>\<open>2025-08-08 14:30:05\<close>.
\<close>

theorem format_pattern:
  assumes "length (current_datetime s) = 20"
  shows
    "(RTC_UpdateDateTime_sample hw = Some ((date_reg, time_reg), hw') \<and>
      valid_bcd (year_bcd date_reg) \<and> valid_bcd (month_bcd date_reg) \<and>
      valid_bcd (day_bcd date_reg) \<and> valid_bcd (hour_bcd time_reg) \<and>
      valid_bcd (min_bcd time_reg) \<and> valid_bcd (sec_bcd time_reg) \<longrightarrow>
        RTC_UpdateDateTime hw s =
          Some (s\<lparr>current_datetime := date_time_text date_reg time_reg @ [CHR 0x00]\<rparr>, hw') \<and>
        length (date_time_text date_reg time_reg) = 19) \<and>
     (RTC_UpdateDateTime_sample hw = Some ((pack_date 2025 8 8, pack_time 14 30 5), hw') \<longrightarrow>
        RTC_UpdateDateTime hw s =
          Some (s\<lparr>current_datetime := ''2025-08-08 14:30:05'' @ [CHR 0x00]\<rparr>, hw'))"
proof (intro conjI impI)
  assume a: "RTC_UpdateDateTime_sample hw = Some ((date_reg, time_reg), hw') \<and>
      valid_bcd (year_bcd date_reg) \<and> valid_bcd (month_bcd date_reg) \<and>
      valid_bcd (day_bcd date_reg) \<and> valid_bcd (hour_bcd time_reg) \<and>
      valid_bcd (min_bcd time_reg) \<and> valid_bcd (sec_bcd time_reg)"
  then have "format_datetime date_reg time_reg (current_datetime s)
      = date_time_text date_reg time_reg @ [CHR 0x00]"
    using assms by (intro format_datetime_text) simp_all
  with a show "RTC_UpdateDateTime hw s =
          Some (s\<lparr>current_datetime := date_time_text date_reg time_reg @ [CHR 0x00]\<rparr>, hw')"
    by (simp add: RTC_UpdateDateTime_result)
  show "length (date_time_text date_reg time_reg) = 19"
    by (rule length_date_time_text)
next
  assume a: "RTC_UpdateDateTime_sample hw = Some ((pack_date 2025 8 8, pack_time 14 30 5), hw')"
  have "format_datetime 0x25080800 0x14300500 (current_datetime s)
      = date_time_text 0x25080800 0x14300500 @ [CHR 0x00]"
    using assms example_valid by (rule format_datetime_text)
  with a show "RTC_UpdateDateTime hw s =
          Some (s\<lparr>current_datetime := ''2025-08-08 14:30:05'' @ [CHR 0x00]\<rparr>, hw')"
    by (simp add: RTC_UpdateDateTime_result packed_example example_text)
qed

theorem format_pattern_witness:
  "length (current_datetime power_on) = 20 \<and>
   RTC_UpdateDateTime_sample (steady_clock (pack_date 2025 8 8) (pack_time 14 30 5))
     = Some ((pack_date 2025 8 8, pack_time 14 30 5),
             steady_clock (pack_date 2025 8 8) (pack_time 14 30 5)) \<and>
   valid_bcd (year_bcd (pack_date 2025 8 8)) \<and> valid_bcd (month_bcd (pack_date 2025 8 8)) \<and>
   valid_bcd (day_bcd (pack_date 2025 8 8)) \<and> valid_bcd (hour_bcd (pack_time 14 30 5)) \<and>
   valid_bcd (min_bcd (pack_time 14 30 5)) \<and> valid_bcd (sec_bcd (pack_time 14 30 5)) \<and>
   date_time_text (pack_date 2025 8 8) (pack_time 14 30 5) = ''2025-08-08 14:30:05'' \<and>
   RTC_UpdateDateTime (steady_clock (pack_date 2025 8 8) (pack_time 14 30 5)) power_on
     = Some (power_on\<lparr>current_datetime := ''2025-08-08 14:30:05'' @ [CHR 0x00]\<rparr>,
             steady_clock (pack_date 2025 8 8) (pack_time 14 30 5))"
proof -
  have l: "length (current_datetime power_on) = 20" by (simp add: power_on_def)
  note w = format_pattern [OF l, of "steady_clock (pack_date 2025 8 8) (pack_time 14 30 5)"
      "pack_date 2025 8 8" "pack_time 14 30 5"
      "steady_clock (pack_date 2025 8 8) (pack_time 14 30 5)"]
  show ?thesis
    using l w example_valid
    by (simp add: date_time_sample_steady packed_example example_text)
qed

section \<open>The classifier\<close>

text \<open>
  Claim C1, as amended. \<^verbatim>\<open>checkPeakHours\<close> returns nothing; its classification is the
  flag \<^verbatim>\<open>multiTariff\<close>, 1 for peak and 0 for off-peak. For every window set by
  \<^verbatim>\<open>setpeakhours\<close> and every sampled time whose hour in \<open>[0, 23]\<close> and minute in
  \<open>[0, 59]\<close> are BCD-encoded in the register, the flag is 1 if and only if
  \<open>start \<le> hour * 60 + minute < end\<close>, and 0 otherwise. A time exactly at the end
  minute is off-peak. A time exactly at the start minute is peak when \<open>start < end\<close>.
\<close>

theorem classify_window:
  assumes "checkPeakHours_sample hw = Some (time_reg, hw')"
    and "hour \<le> 23" and "minute \<le> 59"
    and "hour_bcd time_reg = int_to_bcd hour" and "min_bcd time_reg = int_to_bcd minute"
  shows "\<exists>s'. checkPeakHours hw (setpeakhours start_hour start_min end_hour end_min s)
               = Some (s', hw') \<and>
     (multiTariff s' = 1 \<longleftrightarrow>
        unat start_hour * 60 + unat start_min \<le> unat hour * 60 + unat minute \<and>
        unat hour * 60 + unat minute < unat end_hour * 60 + unat end_min) \<and>
     (multiTariff s' = 0 \<longleftrightarrow>
        \<not> (unat start_hour * 60 + unat start_min \<le> unat hour * 60 + unat minute \<and>
           unat hour * 60 + unat minute < unat end_hour * 60 + unat end_min)) \<and>
     (unat hour * 60 + unat minute = unat start_hour * 60 + unat start_min \<and>
      unat start_hour * 60 + unat start_min < unat end_hour * 60 + unat end_min
        \<longrightarrow> multiTariff s' = 1) \<and>
     (unat hour * 60 + unat minute = unat end_hour * 60 + unat end_min
        \<longrightarrow> multiTariff s' = 0)"
proof -
  let ?s = "setpeakhours start_hour start_min end_hour end_min s"
  have now: "unat (current_minutes time_reg) = unat hour * 60 + unat minute"
    using assms(2-5) by (rule minutes_of_encoded)
  have win: "in_window ?s n \<longleftrightarrow>
      unat start_hour * 60 + unat start_min \<le> n \<and> n < unat end_hour * 60 + unat end_min" for n
    by (simp only: in_window_def unat_setpeakhours)
  show ?thesis
    unfolding checkPeakHours_result [OF assms(1)] now win
    by (cases "unat start_hour * 60 + unat start_min \<le> unat hour * 60 + unat minute \<and>
        unat hour * 60 + unat minute < unat end_hour * 60 + unat end_min") auto
qed

theorem classify_window_witness:
  "checkPeakHours_sample (steady_clock 0x25080800 (pack_time 9 15 0))
     = Some (pack_time 9 15 0, steady_clock 0x25080800 (pack_time 9 15 0)) \<and>
   (9 :: u8) \<le> 23 \<and> (15 :: u8) \<le> 59 \<and>
   hour_bcd (pack_time 9 15 0) = int_to_bcd 9 \<and> min_bcd (pack_time 9 15 0) = int_to_bcd 15 \<and>
   (\<exists>s'. checkPeakHours (steady_clock 0x25080800 (pack_time 9 15 0))
            (setpeakhours 8 0 17 0 power_on)
          = Some (s', steady_clock 0x25080800 (pack_time 9 15 0)) \<and> multiTariff s' = 1) \<and>
   (\<exists>s'. checkPeakHours (steady_clock 0x25080800 (pack_time 9 15 0))
            (setpeakhours 9 15 17 0 power_on)
          = Some (s', steady_clock 0x25080800 (pack_time 9 15 0)) \<and> multiTariff s' = 1) \<and>
   (\<exists>s'. checkPeakHours (steady_clock 0x25080800 (pack_time 9 15 0))
            (setpeakhours 8 0 9 15 power_on)
          = Some (s', steady_clock 0x25080800 (pack_time 9 15 0)) \<and> multiTariff s' = 0)"
proof -
  note s = time_sample_steady [of "0x25080800" "pack_time 9 15 0"]
  note f = fields_of_pack_time(1,2) [of 9 15 0]
  have b: "(9 :: u8) \<le> 23" "(15 :: u8) \<le> 59" by simp_all
  note w = classify_window [OF s b f, where s = power_on]
  show ?thesis
    using s f w [of 8 0 17 0] w [of 9 15 17 0] w [of 8 0 9 15] by simp blast
qed

text \<open>
  Claim C1 as stated fails for a window with \<open>start \<ge> end\<close>: with the window set to
  22:00-06:00, the time 22:00, exactly at the start minute, is classified off-peak.
\<close>

theorem classify_start_boundary_counterexample:
  "unat (peak_start_minutes (setpeakhours 22 0 6 0 power_on)) = 22 * 60 + 0 \<and>
   unat (current_minutes (pack_time 22 0 0)) = 22 * 60 + 0 \<and>
   checkPeakHours (steady_clock 0x25080800 (pack_time 22 0 0)) (setpeakhours 22 0 6 0 power_on)
     = Some (\<lparr>current_datetime = replicate 20 (CHR 0x00), multiTariff = 0,
              peak_start_minutes = 1320, peak_end_minutes = 360,
              uart1 = [''(OFFPEAK-HOUR)\<newline>'']\<rparr>,
             steady_clock 0x25080800 (pack_time 22 0 0))"
proof -
  have m: "unat (current_minutes (pack_time 22 0 0)) = 1320"
    by (simp add: unat_current_minutes fields_of_pack_time decode_int_to_bcd)
  have w: "\<not> in_window (setpeakhours 22 0 6 0 power_on) 1320"
    by (simp add: in_window_def unat_setpeakhours)
  have p: "setpeakhours 22 0 6 0 power_on
     = \<lparr>current_datetime = replicate 20 (CHR 0x00), multiTariff = 0,
              peak_start_minutes = 1320, peak_end_minutes = 360, uart1 = []\<rparr>"
    by (simp add: setpeakhours_def power_on_def)
  show ?thesis
    unfolding checkPeakHours_result [OF time_sample_steady] m
    using w by (simp add: unat_setpeakhours) (simp add: p)
qed

text \<open>
  Claim C5. Every call of \<^verbatim>\<open>checkPeakHours\<close> on a clock whose two reads agree at
  some attempt returns, whatever the state was before, and it has then sent one status
  line and written the tariff flag: when the time sampled at the first agreeing attempt
  is inside the window the line is \<^verbatim>\<open>(PEAK-HOUR)\<close>, which contains \<^verbatim>\<open>PEAK-HOUR\<close>, and
  the flag is 1; otherwise the line is \<^verbatim>\<open>(OFFPEAK-HOUR)\<close>, which contains
  \<^verbatim>\<open>OFFPEAK-HOUR\<close>, and the flag is 0.
\<close>

theorem classify_effects:
  assumes "\<exists>n. time_agree hw n"
  shows "\<exists>k line flag.
     time_agree hw k \<and> (\<forall>j<k. \<not> time_agree hw j) \<and>
     checkPeakHours hw s =
       Some (s\<lparr>uart1 := uart1 s @ [line], multiTariff := flag\<rparr>, snd (time_sampled hw k)) \<and>
     (if in_window s (unat (current_minutes (fst (time_sampled hw k))))
      then flag = 1 \<and> line = ''(PEAK-HOUR)\<newline>'' \<and> sublist ''PEAK-HOUR'' line
      else flag = 0 \<and> line = ''(OFFPEAK-HOUR)\<newline>'' \<and> sublist ''OFFPEAK-HOUR'' line)"
proof -
  from assms obtain k where k: "time_agree hw k" "\<forall>j<k. \<not> time_agree hw j"
    by (auto simp: exists_least_iff [of "time_agree hw"])
  show ?thesis
  proof (cases "in_window s (unat (current_minutes (fst (time_sampled hw k))))")
    case True
    then have "time_agree hw k \<and> (\<forall>j<k. \<not> time_agree hw j) \<and>
      checkPeakHours hw s =
        Some (s\<lparr>uart1 := uart1 s @ [''(PEAK-HOUR)\<newline>''], multiTariff := 1\<rparr>,
              snd (time_sampled hw k)) \<and>
      (if in_window s (unat (current_minutes (fst (time_sampled hw k))))
       then (1 :: 32 word) = 1 \<and> ''(PEAK-HOUR)\<newline>'' = ''(PEAK-HOUR)\<newline>'' \<and>
            sublist ''PEAK-HOUR'' ''(PEAK-HOUR)\<newline>''
       else (1 :: 32 word) = 0 \<and> ''(PEAK-HOUR)\<newline>'' = ''(OFFPEAK-HOUR)\<newline>'' \<and>
            sublist ''OFFPEAK-HOUR'' ''(PEAK-HOUR)\<newline>'')"
      using k checkPeakHours_first_agree [OF k, of s] sublist_peak by simp
    then show ?thesis by blast
  next
    case False
    then have "time_agree hw k \<and> (\<forall>j<k. \<not> time_agree hw j) \<and>
      checkPeakHours hw s =
        Some (s\<lparr>uart1 := uart1 s @ [''(OFFPEAK-HOUR)\<newline>''], multiTariff := 0\<rparr>,
              snd (time_sampled hw k)) \<and>
      (if in_window s (unat (current_minutes (fst (time_sampled hw k))))
       then (0 :: 32 word) = 1 \<and> ''(OFFPEAK-HOUR)\<newline>'' = ''(PEAK-HOUR)\<newline>'' \<and>
            sublist ''PEAK-HOUR'' ''(OFFPEAK-HOUR)\<newline>''
       else (0 :: 32 word) = 0 \<and> ''(OFFPEAK-HOUR)\<newline>'' = ''(OFFPEAK-HOUR)\<newline>'' \<and>
            sublist ''OFFPEAK-HOUR'' ''(OFFPEAK-HOUR)\<newline>'')"
      using k checkPeakHours_first_agree [OF k, of s] sublist_offpeak by simp
    then show ?thesis by blast
  qed
qed

theorem classify_effects_witness:
  "(\<exists>n. time_agree midnight_tick n) \<and> \<not> time_agree midnight_tick 0 \<and>
   checkPeakHours midnight_tick (setpeakhours 0 0 6 0 power_on)
     = Some ((setpeakhours 0 0 6 0 power_on)
               \<lparr>uart1 := [''(PEAK-HOUR)\<newline>''], multiTariff := 1\<rparr>,
             sconst after_midnight) \<and>
   checkPeakHours midnight_tick (setpeakhours 8 0 17 0 power_on)
     = Some ((setpeakhours 8 0 17 0 power_on)
               \<lparr>uart1 := [''(OFFPEAK-HOUR)\<newline>''], multiTariff := 0\<rparr>,
             sconst after_midnight) \<and>
   (\<exists>n. time_agree (steady_clock 0x25080800 (pack_time 9 15 0)) n) \<and>
   checkPeakHours (steady_clock 0x25080800 (pack_time 9 15 0)) (setpeakhours 8 0 17 0 power_on)
     = Some ((setpeakhours 8 0 17 0 power_on)
               \<lparr>uart1 := [''(PEAK-HOUR)\<newline>''], multiTariff := 1\<rparr>,
             steady_clock 0x25080800 (pack_time 9 15 0)) \<and>
   (\<exists>n. time_agree (steady_clock 0x25080800 (pack_time 7 59 0)) n) \<and>
   checkPeakHours (steady_clock 0x25080800 (pack_time 7 59 0)) (setpeakhours 8 0 17 0 power_on)
     = Some ((setpeakhours 8 0 17 0 power_on)
               \<lparr>uart1 := [''(OFFPEAK-HOUR)\<newline>''], multiTariff := 0\<rparr>,
             steady_clock 0x25080800 (pack_time 7 59 0))"
proof -
  have u: "uart1 (setpeakhours a b c d power_on) = []" for a b c d
    by (simp add: setpeakhours_def power_on_def)
  have w: "in_window (setpeakhours 0 0 6 0 power_on) 0"
    "\<not> in_window (setpeakhours 8 0 17 0 power_on) 0"
    "in_window (setpeakhours 8 0 17 0 power_on) 555"
    "\<not> in_window (setpeakhours 8 0 17 0 power_on) 479"
    by (simp_all add: in_window_def unat_setpeakhours)
  have em: "\<exists>n. time_agree midnight_tick n" using midnight_tick_agree(2) by blast
  have es: "\<exists>n. time_agree (steady_clock d t) n" for d t
    using steady_clock_agree(1) by blast
  have a: "checkPeakHours midnight_tick (setpeakhours 0 0 6 0 power_on)
     = Some ((setpeakhours 0 0 6 0 power_on)
               \<lparr>uart1 := [''(PEAK-HOUR)\<newline>''], multiTariff := 1\<rparr>,
             sconst after_midnight)"
    using classify_effects [OF em, of "setpeakhours 0 0 6 0 power_on"] w
    by (auto dest!: midnight_tick_first_unique simp: midnight_tick_first minutes_of_midnight u)
  have b: "checkPeakHours midnight_tick (setpeakhours 8 0 17 0 power_on)
     = Some ((setpeakhours 8 0 17 0 power_on)
               \<lparr>uart1 := [''(OFFPEAK-HOUR)\<newline>''], multiTariff := 0\<rparr>,
             sconst after_midnight)"
    using classify_effects [OF em, of "setpeakhours 8 0 17 0 power_on"] w
    by (auto dest!: midnight_tick_first_unique simp: midnight_tick_first minutes_of_midnight u)
  have c: "checkPeakHours (steady_clock 0x25080800 (pack_time 9 15 0))
       (setpeakhours 8 0 17 0 power_on)
     = Some ((setpeakhours 8 0 17 0 power_on)
               \<lparr>uart1 := [''(PEAK-HOUR)\<newline>''], multiTariff := 1\<rparr>,
             steady_clock 0x25080800 (pack_time 9 15 0))"
    using classify_effects [OF es, of "0x25080800" "pack_time 9 15 0"
        "setpeakhours 8 0 17 0 power_on"] w
    by (auto dest!: steady_clock_first_unique simp: steady_clock_agree minutes_examples u)
  have d: "checkPeakHours (steady_clock 0x25080800 (pack_time 7 59 0))
       (setpeakhours 8 0 17 0 power_on)
     = Some ((setpeakhours 8 0 17 0 power_on)
               \<lparr>uart1 := [''(OFFPEAK-HOUR)\<newline>''], multiTariff := 0\<rparr>,
             steady_clock 0x25080800 (pack_time 7 59 0))"
    using classify_effects [OF es, of "0x25080800" "pack_time 7 59 0"
        "setpeakhours 8 0 17 0 power_on"] w
    by (auto dest!: steady_clock_first_unique simp: steady_clock_agree minutes_examples u)
  show ?thesis using em es a b c d midnight_tick_agree(1) by simp
qed

text \<open>
  Claim C6. When the window has \<open>start \<ge> end\<close>, as the window \<open>0, 0\<close> that the globals
  hold before any call of \<^verbatim>\<open>setpeakhours\<close>, every call of \<^verbatim>\<open>checkPeakHours\<close> on a
  clock whose two reads agree at some attempt returns and classifies the time as
  off-peak, whatever the time register holds.
\<close>

theorem empty_window_offpeak:
  assumes "peak_start_minutes s \<ge> peak_end_minutes s"
    and "\<exists>n. time_agree hw n"
  shows "\<exists>k. time_agree hw k \<and> (\<forall>j<k. \<not> time_agree hw j) \<and>
     checkPeakHours hw s =
       Some (s\<lparr>uart1 := uart1 s @ [''(OFFPEAK-HOUR)\<newline>''], multiTariff := 0\<rparr>,
             snd (time_sampled hw k))"
proof -
  from assms(2) obtain k where k: "time_agree hw k" "\<forall>j<k. \<not> time_agree hw j"
    by (auto simp: exists_least_iff [of "time_agree hw"])
  have "\<not> in_window s n" for n
    using assms(1) by (auto simp: in_window_def word_le_nat_alt)
  then have "checkPeakHours hw s =
       Some (s\<lparr>uart1 := uart1 s @ [''(OFFPEAK-HOUR)\<newline>''], multiTariff := 0\<rparr>,
             snd (time_sampled hw k))"
    using checkPeakHours_first_agree [OF k, of s] by simp
  with k show ?thesis by blast
qed

theorem empty_window_offpeak_witness:
  "peak_start_minutes power_on \<ge> peak_end_minutes power_on \<and>
   peak_start_minutes power_on = 0 \<and> peak_end_minutes power_on = 0 \<and>
   (\<exists>n. time_agree midnight_tick n) \<and> \<not> time_agree midnight_tick 0 \<and>
   checkPeakHours midnight_tick power_on
     = Some (power_on\<lparr>uart1 := [''(OFFPEAK-HOUR)\<newline>''], multiTariff := 0\<rparr>,
             sconst after_midnight) \<and>
   peak_start_minutes (setpeakhours 17 0 8 0 power_on)
     \<ge> peak_end_minutes (setpeakhours 17 0 8 0 power_on) \<and>
   (\<exists>n. time_agree (steady_clock 0x25080800 (pack_time 23 30 0)) n) \<and>
   checkPeakHours (steady_clock 0x25080800 (pack_time 23 30 0)) (setpeakhours 17 0 8 0 power_on)
     = Some ((setpeakhours 17 0 8 0 power_on)
               \<lparr>uart1 := [''(OFFPEAK-HOUR)\<newline>''], multiTariff := 0\<rparr>,
             steady_clock 0x25080800 (pack_time 23 30 0))"
proof -
  have p: "peak_start_minutes power_on \<ge> peak_end_minutes power_on"
    "peak_start_minutes power_on = 0" "peak_end_minutes power_on = 0" "uart1 power_on = []"
    by (simp_all add: power_on_def)
  have q: "peak_start_minutes (setpeakhours 17 0 8 0 power_on)
     \<ge> peak_end_minutes (setpeakhours 17 0 8 0 power_on)"
    by (simp add: word_le_nat_alt unat_setpeakhours)
  have u: "uart1 (setpeakhours 17 0 8 0 power_on) = []"
    by (simp add: setpeakhours_def power_on_def)
  have em: "\<exists>n. time_agree midnight_tick n" using midnight_tick_agree(2) by blast
  have es: "\<exists>n. time_agree (steady_clock d t) n" for d t
    using steady_clock_agree(1) by blast
  have a: "checkPeakHours midnight_tick power_on
     = Some (power_on\<lparr>uart1 := [''(OFFPEAK-HOUR)\<newline>''], multiTariff := 0\<rparr>,
             sconst after_midnight)"
    using empty_window_offpeak [OF p(1) em]
    by (auto dest!: midnight_tick_first_unique simp: midnight_tick_first p(4))
  have b: "checkPeakHours (steady_clock 0x25080800 (pack_time 23 30 0))
       (setpeakhours 17 0 8 0 power_on)
     = Some ((setpeakhours 17 0 8 0 power_on)
               \<lparr>uart1 := [''(OFFPEAK-HOUR)\<newline>''], multiTariff := 0\<rparr>,
             steady_clock 0x25080800 (pack_time 23 30 0))"
    using empty_window_offpeak [OF q es, of "0x25080800" "pack_time 23 30 0"]
    by (auto dest!: steady_clock_first_unique simp: steady_clock_agree u)
  show ?thesis using p(1-3) q em es a b midnight_tick_agree(1) by simp
qed

text \<open>
  Claim C10. A call of \<^verbatim>\<open>checkPeakHours\<close> leaves \<^verbatim>\<open>peak_start_minutes\<close>,
  \<^verbatim>\<open>peak_end_minutes\<close> and the buffer \<^verbatim>\<open>current_datetime\<close> as they were: the state
  after the call is the state before it with one line appended to the UART output and
  the tariff flag written.
\<close>

theorem classify_frame:
  assumes "checkPeakHours_sample hw = Some (time_reg, hw')"
  shows "\<exists>s'. checkPeakHours hw s = Some (s', hw') \<and>
     peak_start_minutes s' = peak_start_minutes s \<and>
     peak_end_minutes s' = peak_end_minutes s \<and>
     current_datetime s' = current_datetime s \<and>
     (\<exists>line flag. s' = s\<lparr>uart1 := uart1 s @ [line], multiTariff := flag\<rparr>)"
  unfolding checkPeakHours_result [OF assms]
  by (cases "in_window s (unat (current_minutes time_reg))") auto

theorem classify_frame_witness:
  "checkPeakHours_sample midnight_tick = Some (0, sconst after_midnight) \<and>
   (\<exists>s'. checkPeakHours midnight_tick (setpeakhours 8 0 17 0 power_on)
            = Some (s', sconst after_midnight) \<and>
      peak_start_minutes s' = 480 \<and> peak_end_minutes s' = 1020 \<and>
      current_datetime s' = replicate 20 (CHR 0x00))"
proof -
  have p: "peak_start_minutes (setpeakhours 8 0 17 0 power_on) = 480"
    "peak_end_minutes (setpeakhours 8 0 17 0 power_on) = 1020"
    "current_datetime (setpeakhours 8 0 17 0 power_on) = replicate 20 (CHR 0x00)"
    by (simp_all add: setpeakhours_def power_on_def)
  show ?thesis
    using classify_frame [OF time_sample_midnight, of "setpeakhours 8 0 17 0 power_on"]
    unfolding p by (simp add: time_sample_midnight) blast
qed

end
